theory Spec2Isabelle
  imports Main "HOL-Library.Sublist" "HOL-Library.Word"
begin

section \<open>The streaming client of amazon\_transcribe (client.py)\<close>

text \<open>
  The module holds two classes, \<^verbatim>\<open>TranscribeStreamingClient\<close> and its subclass
  \<^verbatim>\<open>TranscribeMedicalStreamingClient\<close>. Each has one coroutine,
  \<^verbatim>\<open>start_stream_transcription\<close>, a linear pipeline of calls into the rest of the
  package (request shapes, endpoint resolver, serializer, credential resolver, signer,
  HTTP session, response parser) followed by a classification of the response status.
  The base class also has the helpers \<^verbatim>\<open>_create_audio_stream\<close> and
  \<^verbatim>\<open>_extract_signature\<close>.

  The pipeline is embedded as a function over an explicit trace of the calls made to
  the collaborators; an exception is the left summand of the result. The collaborators
  are not part of client.py: they are the fields of a record, and each of them may
  raise.
\<close>

subsection \<open>Values\<close>

type_synonym byte = "8 word"

text \<open>
  What a call can raise: an exception object coming from a collaborator (also the one
  built by \<^verbatim>\<open>parse_exception\<close>), the \<^verbatim>\<open>RuntimeError\<close> of line 172, and the
  errors of the standard library calls in \<^verbatim>\<open>_extract_signature\<close>.
\<close>

datatype 'x error =
    Raised 'x
  | RuntimeError string
  | ValueError string
  | BinasciiError string
  | IndexError

text \<open>The keyword arguments of \<^verbatim>\<open>start_stream_transcription\<close> (lines 75 to 84).\<close>

record params =
  language_code :: string
  media_sample_rate_hz :: int
  media_encoding :: string
  vocabulary_name :: "string option"
  session_id :: "string option"
  vocab_filter_method :: "string option"
  vocab_filter_name :: "string option"
  show_speaker_label :: "bool option"
  enable_channel_identification :: "bool option"
  number_of_channels :: "int option"

text \<open>The medical variant takes two more (lines 211 and 212).\<close>

record medical_params = params +
  audio_type :: string
  specialty :: string

text \<open>
  The signed request: the fields that client.py reads (the field \<^verbatim>\<open>method\<close> is
  \<open>http_method\<close> here). The header collection is a
  mapping from names to values with \<^verbatim>\<open>get\<close> and \<^verbatim>\<open>as_list\<close>; it is kept as
  the list of its items.
\<close>

record 'b signed_request =
  uri :: string
  http_method :: string
  headers :: "(string \<times> string) list"
  body :: 'b

text \<open>The resolved response: client.py reads its status code only.\<close>

record resolved_response =
  status_code :: int

text \<open>
  \<^verbatim>\<open>AudioStream\<close> as built in lines 185 to 192. The two serializer arguments are
  fresh objects without data and are left out; the event signer is
  \<^verbatim>\<open>EventSigner(service_name, region)\<close>.
\<close>

record ('b, 'cr, 'x) audio_stream =
  input_stream :: 'b
  event_signer :: "string \<times> string"
  initial_signature :: "byte list"
  credential_resolver :: "'x + 'cr"

text \<open>\<^verbatim>\<open>StartStreamTranscriptionEventStream(audio_stream, parsed_response)\<close>, line 181.\<close>

record ('b, 'cr, 'x, 'p) event_stream =
  audio_stream :: "('b, 'cr, 'x) audio_stream"
  parsed_response :: 'p

subsection \<open>The collaborators\<close>

text \<open>
  Everything client.py calls in the rest of the package. A call returns
  \<open>Inl x\<close> when it raises the exception \<open>x\<close>. The type variables are the
  collaborators' own data: \<open>'pr\<close> the keyword arguments, \<open>'sh\<close> the request shape,
  \<open>'ep\<close> the endpoint, \<open>'rq\<close> the prepared request, \<open>'cr\<close> the credentials,
  \<open>'b\<close> the streaming body handle, \<open>'rs\<close> the pending response, \<open>'m\<close> the rest
  of the resolved response, \<open>'p\<close> the parsed response, \<open>'x\<close> the exceptions.

  \<^item> \<open>new_request\<close>: the request shape class of amazon\_transcribe.model,
    \<^verbatim>\<open>StartStreamTranscriptionRequest\<close> or its medical counterpart;
  \<^item> \<open>endpoint_resolve\<close>: \<^verbatim>\<open>self._endpoint_resolver.resolve(region)\<close>;
  \<^item> \<open>serialize_request\<close>:
    \<^verbatim>\<open>self._serializer.serialize_start_stream_transcription_request(...).prepare()\<close>;
  \<^item> \<open>get_credentials\<close>: \<^verbatim>\<open>self._credential_resolver.get_credentials()\<close>;
  \<^item> \<open>sign\<close>: \<^verbatim>\<open>SigV4RequestSigner(service, region).sign(request, creds)\<close>;
  \<^item> \<open>make_request\<close>: the session manager's
    \<^verbatim>\<open>make_request(uri, method, headers, body)\<close>;
  \<^item> \<open>resolve_response\<close>, \<open>consume_body\<close>: the methods of the pending response;
  \<^item> \<open>close_body\<close>: \<^verbatim>\<open>close()\<close> of the streaming body of the signed request;
  \<^item> \<open>parse_exception\<close>, \<open>parse_start_stream_transcription_response\<close>: the methods
    of \<^verbatim>\<open>self._response_parser\<close>.
\<close>

record ('pr, 'sh, 'ep, 'rq, 'cr, 'b, 'rs, 'm, 'p, 'x) client =
  region :: string
  service_name :: string
  new_request :: "'pr \<Rightarrow> 'x + 'sh"
  endpoint_resolve :: "string \<Rightarrow> 'x + 'ep"
  serialize_request :: "'ep \<Rightarrow> 'sh \<Rightarrow> 'x + 'rq"
  get_credentials :: "'x + 'cr"
  sign :: "string \<Rightarrow> string \<Rightarrow> 'rq \<Rightarrow> 'cr \<Rightarrow> 'x + 'b signed_request"
  make_request :: "string \<Rightarrow> string \<Rightarrow> (string \<times> string) list \<Rightarrow> 'b \<Rightarrow> 'x + 'rs"
  resolve_response :: "'rs \<Rightarrow> 'x + 'm resolved_response_scheme"
  close_body :: "'b \<Rightarrow> 'x + unit"
  consume_body :: "'rs \<Rightarrow> 'x + byte list"
  parse_exception :: "'m resolved_response_scheme \<Rightarrow> byte list \<Rightarrow> 'x"
  parse_start_stream_transcription_response ::
    "'m resolved_response_scheme \<Rightarrow> 'rs \<Rightarrow> 'x + 'p"

subsection \<open>Calls and their trace\<close>

text \<open>One event for each call into a collaborator, in the order of the calls.\<close>

datatype event =
    NewRequest
  | ResolveEndpoint
  | Serialize
  | GetCredentials
  | Sign
  | MakeRequest
  | ResolveResponse
  | CloseBody
  | ConsumeBody
  | ParseException
  | ParseResponse

type_synonym ('x, 'a) io = "event list \<Rightarrow> ('x error + 'a) \<times> event list"

definition return_io :: "'a \<Rightarrow> ('x, 'a) io" where
  "return_io a tr = (Inr a, tr)"

definition raise_io :: "'x error \<Rightarrow> ('x, 'a) io" where
  "raise_io e tr = (Inl e, tr)"

definition bind_io :: "('x, 'a) io \<Rightarrow> ('a \<Rightarrow> ('x, 'b) io) \<Rightarrow> ('x, 'b) io" where
  "bind_io m f tr =
     (case m tr of
        (Inl e, tr') \<Rightarrow> (Inl e, tr')
      | (Inr a, tr') \<Rightarrow> f a tr')"

text \<open>A call is recorded, then it returns or raises.\<close>

definition call :: "event \<Rightarrow> 'x + 'a \<Rightarrow> ('x, 'a) io" where
  "call ev r tr =
     (case r of
        Inl x \<Rightarrow> (Inl (Raised x), tr @ [ev])
      | Inr a \<Rightarrow> (Inr a, tr @ [ev]))"

text \<open>A computation of client.py itself: no call, but it may raise.\<close>

definition lift_io :: "'x error + 'a \<Rightarrow> ('x, 'a) io" where
  "lift_io r tr = (r, tr)"

subsection \<open>Standard library: \<^verbatim>\<open>%s\<close>, \<^verbatim>\<open>re.split\<close>, \<^verbatim>\<open>unhexlify\<close>\<close>

text \<open>\<^verbatim>\<open>"%s" % n\<close> for an integer: its decimal digits, with a sign when negative.\<close>

function str_nat :: "nat \<Rightarrow> string" where
  "str_nat n =
     (if n < 10 then [char_of (48 + n)]
      else str_nat (n div 10) @ [char_of (48 + n mod 10)])"
  by pat_completeness auto
termination
  by (relation "measure (\<lambda>n. n)") auto

definition str_int :: "int \<Rightarrow> string" where
  "str_int i = (if i < 0 then CHR ''-'' # str_nat (nat (- i)) else str_nat (nat i))"

text \<open>
  \<^verbatim>\<open>re.split(pat, s)\<close> for a pattern without metacharacters, which matches itself
  only, and which is not empty: the text is scanned from the left, a match closes the
  current piece and the scan goes on behind the match. \<open>acc\<close> is the current piece,
  reversed. The list of pieces is never empty.
\<close>

fun re_split :: "string \<Rightarrow> string \<Rightarrow> string \<Rightarrow> string list" where
  "re_split pat acc [] = [rev acc]"
| "re_split pat acc (c # cs) =
     (if prefix pat (c # cs)
      then rev acc # re_split pat [] (drop (length pat - 1) cs)
      else re_split pat (c # acc) cs)"

text \<open>The value of a hexadecimal digit, in either case.\<close>

definition hex_digit_value :: "char \<Rightarrow> nat option" where
  "hex_digit_value c =
     (let n = (of_char c :: nat)
      in if 48 \<le> n \<and> n \<le> 57 then Some (n - 48)
         else if 97 \<le> n \<and> n \<le> 102 then Some (n - 87)
         else if 65 \<le> n \<and> n \<le> 70 then Some (n - 55)
         else None)"

text \<open>The loop of \<^verbatim>\<open>binascii.a2b_hex\<close> over the pairs of an even-length text.\<close>

fun a2b_hex :: "string \<Rightarrow> 'x error + byte list" where
  "a2b_hex (a # b # cs) =
     (case (hex_digit_value a, hex_digit_value b) of
        (Some hi, Some lo) \<Rightarrow>
          (case a2b_hex cs of
             Inl e \<Rightarrow> Inl e
           | Inr bs \<Rightarrow> Inr (of_nat (16 * hi + lo) # bs))
      | _ \<Rightarrow> Inl (BinasciiError ''Non-hexadecimal digit found''))"
| "a2b_hex _ = Inr []"

text \<open>
  \<^verbatim>\<open>binascii.unhexlify\<close> of a \<^verbatim>\<open>str\<close>: the argument must be ASCII, then of even
  length, then made of hexadecimal digits.
\<close>

definition unhexlify :: "string \<Rightarrow> 'x error + byte list" where
  "unhexlify s =
     (if \<exists>c \<in> set s. 128 \<le> (of_char c :: nat)
      then Inl (ValueError ''string argument should contain only ASCII characters'')
      else if odd (length s) then Inl (BinasciiError ''Odd-length string'')
      else a2b_hex s)"

subsection \<open>\<^verbatim>\<open>TranscribeStreamingClient\<close>\<close>

text \<open>
  The header collection of the signed request matches the names of headers without
  regard to case: a name is looked up in lower case. \<open>lower\<close> is \<^verbatim>\<open>str.lower\<close> on
  the letters A to Z.
\<close>

definition lower_char :: "char \<Rightarrow> char" where
  "lower_char c =
     (let n = (of_char c :: nat)
      in if 65 \<le> n \<and> n \<le> 90 then char_of (n + 32) else c)"

definition lower :: "string \<Rightarrow> string" where
  "lower s = map lower_char s"

definition headers_lookup :: "(string \<times> string) list \<Rightarrow> string \<Rightarrow> string option" where
  "headers_lookup hs key = map_of (map (\<lambda>(k, v). (lower k, v)) hs) (lower key)"

text \<open>\<^verbatim>\<open>headers.get(key, default)\<close>.\<close>

definition headers_get :: "(string \<times> string) list \<Rightarrow> string \<Rightarrow> string \<Rightarrow> string" where
  "headers_get hs key dflt =
     (case headers_lookup hs key of None \<Rightarrow> dflt | Some v \<Rightarrow> v)"

text \<open>Lines 194 to 197. The index \<^verbatim>\<open>[-1]\<close> raises on an empty list.\<close>

definition extract_signature :: "('b, 'z) signed_request_scheme \<Rightarrow> 'x error + byte list" where
  "extract_signature signed_request =
     (let auth = headers_get (headers signed_request) ''Authorization'' ''''
      in case re_split ''Signature='' [] auth of
           [] \<Rightarrow> Inl IndexError
         | pieces \<Rightarrow> unhexlify (last pieces))"

text \<open>Lines 183 to 192.\<close>

definition create_audio_stream ::
  "('pr, 'sh, 'ep, 'rq, 'cr, 'b, 'rs, 'm, 'p, 'x) client \<Rightarrow> 'b signed_request
     \<Rightarrow> ('x, ('b, 'cr, 'x) audio_stream) io" where
  "create_audio_stream self signed_request =
     bind_io (lift_io (extract_signature signed_request)) (\<lambda>initial_signature'.
     return_io
       \<lparr>input_stream = body signed_request,
        event_signer = (service_name self, region self),
        initial_signature = initial_signature',
        credential_resolver = get_credentials self\<rparr>)"

text \<open>
  Lines 133 to 181. \<^verbatim>\<open>signed_request.body.close()\<close> is the event \<open>CloseBody\<close>;
  \<^verbatim>\<open>parse_exception\<close> gives the exception that line 170 raises, be it the one
  it returns or one it raises itself.
\<close>

definition start_stream_transcription ::
  "(params, 'sh, 'ep, 'rq, 'cr, 'b, 'rs, 'm, 'p, 'x) client \<Rightarrow> params
     \<Rightarrow> ('x, ('b, 'cr, 'x, 'p) event_stream) io" where
  "start_stream_transcription self kwargs =
     bind_io (call NewRequest (new_request self kwargs)) (\<lambda>transcribe_streaming_request.
     bind_io (call ResolveEndpoint (endpoint_resolve self (region self))) (\<lambda>endpoint.
     bind_io (call Serialize
                (serialize_request self endpoint transcribe_streaming_request)) (\<lambda>request.
     bind_io (call GetCredentials (get_credentials self)) (\<lambda>creds.
     bind_io (call Sign (sign self ''transcribe'' (region self) request creds))
       (\<lambda>signed_request.
     bind_io (call MakeRequest
                (make_request self (uri signed_request) (http_method signed_request)
                   (headers signed_request) (body signed_request))) (\<lambda>response.
     bind_io (call ResolveResponse (resolve_response self response)) (\<lambda>resolved_response.
       if status_code resolved_response \<ge> 400 then
         bind_io (call CloseBody (close_body self (body signed_request))) (\<lambda>_.
         bind_io (call ConsumeBody (consume_body self response)) (\<lambda>body_bytes.
         bind_io (call ParseException
                    (Inr (parse_exception self resolved_response body_bytes))) (\<lambda>exn.
         raise_io (Raised exn))))
       else if status_code resolved_response \<noteq> 200 then
         raise_io (RuntimeError (''Unexpected status code encountered: ''
                                   @ str_int (status_code resolved_response)))
       else
         bind_io (call ParseResponse
                    (parse_start_stream_transcription_response self
                       resolved_response response)) (\<lambda>parsed_response'.
         bind_io (create_audio_stream self signed_request) (\<lambda>audio_stream'.
         return_io \<lparr>audio_stream = audio_stream',
                    parsed_response = parsed_response'\<rparr>)))))))))"

subsection \<open>\<^verbatim>\<open>TranscribeMedicalStreamingClient\<close>\<close>

text \<open>
  Lines 200 to 203: the constructor of the subclass runs the one of the base class and
  replaces the serializer. Its \<^verbatim>\<open>start_stream_transcription\<close> builds the medical
  request shape, so the two collaborators that depend on the shape are given anew.
\<close>

definition medical_client ::
  "('pr, 'sh, 'ep, 'rq, 'cr, 'b, 'rs, 'm, 'p, 'x) client
     \<Rightarrow> (medical_params \<Rightarrow> 'x + 'msh) \<Rightarrow> ('ep \<Rightarrow> 'msh \<Rightarrow> 'x + 'rq)
     \<Rightarrow> (medical_params, 'msh, 'ep, 'rq, 'cr, 'b, 'rs, 'm, 'p, 'x) client" where
  "medical_client base new_medical_request medical_serializer =
     \<lparr>region = region base,
      service_name = service_name base,
      new_request = new_medical_request,
      endpoint_resolve = endpoint_resolve base,
      serialize_request = medical_serializer,
      get_credentials = get_credentials base,
      sign = sign base,
      make_request = make_request base,
      resolve_response = resolve_response base,
      close_body = close_body base,
      consume_body = consume_body base,
      parse_exception = parse_exception base,
      parse_start_stream_transcription_response =
        parse_start_stream_transcription_response base\<rparr>"

text \<open>Lines 221 to 273, the body of the override.\<close>

definition medical_start_stream_transcription ::
  "(medical_params, 'sh, 'ep, 'rq, 'cr, 'b, 'rs, 'm, 'p, 'x) client \<Rightarrow> medical_params
     \<Rightarrow> ('x, ('b, 'cr, 'x, 'p) event_stream) io" where
  "medical_start_stream_transcription self kwargs =
     bind_io (call NewRequest (new_request self kwargs)) (\<lambda>transcribe_streaming_request.
     bind_io (call ResolveEndpoint (endpoint_resolve self (region self))) (\<lambda>endpoint.
     bind_io (call Serialize
                (serialize_request self endpoint transcribe_streaming_request)) (\<lambda>request.
     bind_io (call GetCredentials (get_credentials self)) (\<lambda>creds.
     bind_io (call Sign (sign self ''transcribe'' (region self) request creds))
       (\<lambda>signed_request.
     bind_io (call MakeRequest
                (make_request self (uri signed_request) (http_method signed_request)
                   (headers signed_request) (body signed_request))) (\<lambda>response.
     bind_io (call ResolveResponse (resolve_response self response)) (\<lambda>resolved_response.
       if status_code resolved_response \<ge> 400 then
         bind_io (call CloseBody (close_body self (body signed_request))) (\<lambda>_.
         bind_io (call ConsumeBody (consume_body self response)) (\<lambda>body_bytes.
         bind_io (call ParseException
                    (Inr (parse_exception self resolved_response body_bytes))) (\<lambda>exn.
         raise_io (Raised exn))))
       else if status_code resolved_response \<noteq> 200 then
         raise_io (RuntimeError (''Unexpected status code encountered: ''
                                   @ str_int (status_code resolved_response)))
       else
         bind_io (call ParseResponse
                    (parse_start_stream_transcription_response self
                       resolved_response response)) (\<lambda>parsed_response'.
         bind_io (create_audio_stream self signed_request) (\<lambda>audio_stream'.
         return_io \<lparr>audio_stream = audio_stream',
                    parsed_response = parsed_response'\<rparr>)))))))))"

subsection \<open>Vocabulary of the statements\<close>

text \<open>
  The first seven calls of the pipeline (lines 133 to 163) all return: the request
  shape is built, the endpoint resolved, the request serialized, the credentials
  fetched, the request signed and sent, and the response resolved. The value is the
  signed request, the pending response and the resolved response.
\<close>

definition handshake ::
  "('pr, 'sh, 'ep, 'rq, 'cr, 'b, 'rs, 'm, 'p, 'x) client \<Rightarrow> 'pr
     \<Rightarrow> ('b signed_request \<times> 'rs \<times> 'm resolved_response_scheme) option" where
  "handshake self kwargs =
     (case new_request self kwargs of Inl _ \<Rightarrow> None | Inr shape \<Rightarrow>
     (case endpoint_resolve self (region self) of Inl _ \<Rightarrow> None | Inr endpoint \<Rightarrow>
     (case serialize_request self endpoint shape of Inl _ \<Rightarrow> None | Inr request \<Rightarrow>
     (case get_credentials self of Inl _ \<Rightarrow> None | Inr creds \<Rightarrow>
     (case sign self ''transcribe'' (region self) request creds of
        Inl _ \<Rightarrow> None
      | Inr signed_request \<Rightarrow>
     (case make_request self (uri signed_request) (http_method signed_request)
             (headers signed_request) (body signed_request) of
        Inl _ \<Rightarrow> None
      | Inr response \<Rightarrow>
     (case resolve_response self response of
        Inl _ \<Rightarrow> None
      | Inr resolved_response \<Rightarrow>
          Some (signed_request, response, resolved_response))))))))"

text \<open>The events of these seven calls.\<close>

definition handshake_trace :: "event list" where
  "handshake_trace =
     [NewRequest, ResolveEndpoint, Serialize, GetCredentials, Sign, MakeRequest,
      ResolveResponse]"

text \<open>A text that \<^verbatim>\<open>unhexlify\<close> accepts: hexadecimal digits, an even number of them.\<close>

definition hexstring :: "string \<Rightarrow> bool" where
  "hexstring s \<longleftrightarrow> even (length s) \<and> list_all (\<lambda>c. hex_digit_value c \<noteq> None) s"

text \<open>
  Modelled from the spec: the signer is outside client.py, and signing must always
  produce a seed signature of fixed length. The Authorization value of a request
  signed with Signature Version 4 ends with \<^verbatim>\<open>Signature=\<close> and the signature, an
  HMAC-SHA256 in hexadecimal: 64 digits.
\<close>

definition sigv4_authorization :: "string \<Rightarrow> bool" where
  "sigv4_authorization auth \<longleftrightarrow>
     74 \<le> length auth
     \<and> take 10 (drop (length auth - 74) auth) = ''Signature=''
     \<and> hexstring (drop (length auth - 64) auth)"

text \<open>An Authorization value of that form, with a made-up key and signature.\<close>

definition example_authorization :: string where
  "example_authorization =
     ''AWS4-HMAC-SHA256 Credential=AKID/20201105/us-east-1/transcribe/aws4_request, ''
     @ ''SignedHeaders=host;x-amz-date, ''
     @ ''Signature=5d672d79c15b13162d9279b0855cfba6789a8edb4c82c400e06b5924a6f2b5d7''"

text \<open>
  The two classes are given equal serialized requests: the two request shape classes
  raise the same exception or both return, and then the two serializers agree on the
  endpoint that was resolved.
\<close>

definition same_request ::
  "(params, 'sh, 'ep, 'rq, 'cr, 'b, 'rs, 'm, 'p, 'x) client \<Rightarrow> params
     \<Rightarrow> (medical_params \<Rightarrow> 'x + 'msh) \<Rightarrow> ('ep \<Rightarrow> 'msh \<Rightarrow> 'x + 'rq) \<Rightarrow> medical_params
     \<Rightarrow> bool" where
  "same_request base kwargs new_medical_request medical_serializer medical_kwargs =
     (case (new_request base kwargs, new_medical_request medical_kwargs) of
        (Inl x, Inl y) \<Rightarrow> x = y
      | (Inr shape, Inr medical_shape) \<Rightarrow>
          (case endpoint_resolve base (region base) of
             Inl _ \<Rightarrow> True
           | Inr endpoint \<Rightarrow>
               serialize_request base endpoint shape
                 = medical_serializer endpoint medical_shape)
      | _ \<Rightarrow> False)"

subsection \<open>An instrumented client\<close>

text \<open>
  A client whose collaborators are fakes that always return: the signer puts the given
  headers on the request, the transport answers with the given status and body, the
  request shape is the keyword arguments as they are (nothing is validated), and the
  exception parsed from an error response is the pair of its status and its body.
  The body handle and the pending response are numbers.
\<close>

definition fake_client ::
  "int \<Rightarrow> (string \<times> string) list \<Rightarrow> byte list
     \<Rightarrow> (params, params, string, string, unit, nat, nat, unit, unit, int \<times> byte list) client"
  where
  "fake_client status hdrs body_bytes =
     \<lparr>region = ''us-east-1'',
      service_name = ''transcribe'',
      new_request = (\<lambda>kwargs. Inr kwargs),
      endpoint_resolve = (\<lambda>region'. Inr (''transcribestreaming.'' @ region')),
      serialize_request = (\<lambda>endpoint shape. Inr endpoint),
      get_credentials = Inr (),
      sign = (\<lambda>service region' request creds.
                Inr \<lparr>uri = request, http_method = ''POST'', headers = hdrs, body = 7\<rparr>),
      make_request = (\<lambda>uri' verb headers' body'. Inr body'),
      resolve_response = (\<lambda>response. Inr \<lparr>status_code = status\<rparr>),
      close_body = (\<lambda>body'. Inr ()),
      consume_body = (\<lambda>response. Inr body_bytes),
      parse_exception = (\<lambda>resolved_response bytes. (status_code resolved_response, bytes)),
      parse_start_stream_transcription_response = (\<lambda>resolved_response response. Inr ())\<rparr>"

text \<open>
  The same client with a response parser that types the error. The response parser is
  outside client.py; this one reads the type of the error from the
  \<^verbatim>\<open>x-amzn-errortype\<close> header of the response, up to a colon, and takes
  \<^verbatim>\<open>Unknown\<close> when the header is missing. The body is not consulted for the type:
  it is kept in the exception, for the message.
\<close>

datatype service_exception =
    BadRequestException "byte list"
  | ConflictException "byte list"
  | InternalFailureException "byte list"
  | LimitExceededException "byte list"
  | ServiceUnavailableException "byte list"
  | UnknownServiceException int string "byte list"

record headers_response = resolved_response +
  response_headers :: "(string \<times> string) list"

definition error_code :: "(string \<times> string) list \<Rightarrow> string" where
  "error_code hs =
     (case headers_lookup hs ''x-amzn-errortype'' of
        None \<Rightarrow> ''Unknown''
      | Some v \<Rightarrow> takeWhile (\<lambda>c. c \<noteq> CHR '':'') v)"

definition typed_exception :: "headers_response \<Rightarrow> byte list \<Rightarrow> service_exception" where
  "typed_exception http_response body_bytes =
     (let code = error_code (response_headers http_response)
      in if code = ''BadRequestException'' then BadRequestException body_bytes
         else if code = ''ConflictException'' then ConflictException body_bytes
         else if code = ''InternalFailureException'' then InternalFailureException body_bytes
         else if code = ''LimitExceededException'' then LimitExceededException body_bytes
         else if code = ''ServiceUnavailableException''
           then ServiceUnavailableException body_bytes
         else UnknownServiceException (status_code http_response) code body_bytes)"

definition typing_client ::
  "int \<Rightarrow> (string \<times> string) list \<Rightarrow> byte list
     \<Rightarrow> (params, params, string, string, unit, nat, nat, unit headers_response_ext, unit,
         service_exception) client"
  where
  "typing_client status response_hdrs body_bytes =
     \<lparr>region = ''us-east-1'',
      service_name = ''transcribe'',
      new_request = (\<lambda>kwargs. Inr kwargs),
      endpoint_resolve = (\<lambda>region'. Inr (''transcribestreaming.'' @ region')),
      serialize_request = (\<lambda>endpoint shape. Inr endpoint),
      get_credentials = Inr (),
      sign = (\<lambda>service region' request creds.
                Inr \<lparr>uri = request, http_method = ''POST'', headers = [], body = 7\<rparr>),
      make_request = (\<lambda>uri' verb headers' body'. Inr body'),
      resolve_response =
        (\<lambda>response. Inr \<lparr>status_code = status, response_headers = response_hdrs\<rparr>),
      close_body = (\<lambda>body'. Inr ()),
      consume_body = (\<lambda>response. Inr body_bytes),
      parse_exception = typed_exception,
      parse_start_stream_transcription_response = (\<lambda>resolved_response response. Inr ())\<rparr>"

text \<open>
  The bytes of an error body that names a type:
  \<^verbatim>\<open>{"__type":"BadRequestException","Message":"bad language code"}\<close>.
\<close>

definition bad_request_body :: "byte list" where
  \<open>bad_request_body =
     map (\<lambda>c. of_nat (of_char c))
       ''{"__type":"BadRequestException","Message":"bad language code"}''\<close>

text \<open>The keyword arguments of a call; the two flags are parameters.\<close>

definition fake_kwargs :: "bool option \<Rightarrow> bool option \<Rightarrow> params" where
  "fake_kwargs speaker channel =
     \<lparr>language_code = ''en-US'',
      media_sample_rate_hz = 16000,
      media_encoding = ''pcm'',
      vocabulary_name = None,
      session_id = None,
      vocab_filter_method = None,
      vocab_filter_name = None,
      show_speaker_label = speaker,
      enable_channel_identification = channel,
      number_of_channels = None\<rparr>"

text \<open>The same call on the medical client.\<close>

definition fake_medical_kwargs :: medical_params where
  "fake_medical_kwargs =
     params.extend (fake_kwargs None None)
       \<lparr>audio_type = ''DICTATION'', specialty = ''PRIMARYCARE''\<rparr>"

section \<open>Auxiliary facts\<close>


lemma re_split_no_match:
  "\<not> sublist pat s \<Longrightarrow> re_split pat acc s = [rev acc @ s]"
proof (induction s arbitrary: acc)
  case Nil
  then show ?case by simp
next
  case (Cons c cs)
  from Cons.prems have np: "\<not> prefix pat (c # cs)" and ns: "\<not> sublist pat cs"
    by (auto simp: sublist_Cons_right)
  from Cons.IH [OF ns, of "c # acc"] np show ?case by simp
qed

lemma border_free:
  assumes "prefix pat (pre @ pat @ suf)" "pre \<noteq> []" "pat \<noteq> []" "hd pat \<notin> set (tl pat)"
  shows "length pat \<le> length pre"
proof (rule ccontr)
  assume "\<not> length pat \<le> length pre"
  then have lt: "length pre < length pat" by simp
  from assms(1) obtain zs where zs: "pre @ pat @ suf = pat @ zs"
    by (auto simp: prefix_def)
  have "(pre @ pat @ suf) ! length pre = hd pat"
    using assms(3) by (simp add: nth_append hd_conv_nth)
  moreover have "(pat @ zs) ! length pre = pat ! length pre"
    using lt by (simp add: nth_append)
  ultimately have "pat ! length pre = hd pat" using zs by simp
  moreover from assms(2) lt obtain k where k: "length pre = Suc k" "k < length (tl pat)"
    by (cases "length pre") auto
  ultimately have "tl pat ! k = hd pat"
    by (simp add: nth_tl)
  with k(2) have "hd pat \<in> set (tl pat)" by (metis nth_mem)
  with assms(4) show False by simp
qed

lemma re_split_not_Nil: "re_split pat acc s \<noteq> []"
  by (induction s arbitrary: acc) auto

lemma re_split_last:
  assumes "pat \<noteq> []" "hd pat \<notin> set (tl pat)" "\<not> sublist pat suf"
  shows "last (re_split pat acc (pre @ pat @ suf)) = suf"
  using assms
proof (induction "length pre" arbitrary: pre acc rule: less_induct)
  case less
  show ?case
  proof (cases pre)
    case Nil
    from less.prems(1) obtain p ps where pat: "pat = p # ps" by (cases pat) auto
    have "re_split pat acc (pat @ suf) = rev acc # re_split pat [] suf"
      by (simp add: pat)
    with less.prems(3) Nil show ?thesis by (simp add: re_split_no_match)
  next
    case (Cons c cs)
    then have eq: "pre @ pat @ suf = c # (cs @ pat @ suf)" by simp
    show ?thesis
    proof (cases "prefix pat (pre @ pat @ suf)")
      case True
      with less.prems Cons have "length pat \<le> length pre"
        by (intro border_free [of pat pre suf]) auto
      with True obtain rest where pre: "pre = pat @ rest"
        by (metis prefix_length_prefix prefix_def prefix_order.order_refl prefixI)
      from less.prems(1) have lr: "length rest < length pre" by (simp add: pre)
      have dr: "drop (length pat - 1) (cs @ pat @ suf) = rest @ pat @ suf"
      proof -
        have "drop (length pat) (pre @ pat @ suf) = rest @ pat @ suf" by (simp add: pre)
        moreover have "drop (length pat) (c # (cs @ pat @ suf))
            = drop (length pat - 1) (cs @ pat @ suf)"
          using less.prems(1) by (cases "length pat") auto
        ultimately show ?thesis by (simp only: eq)
      qed
      from True have "prefix pat (c # (cs @ pat @ suf))" by (simp only: eq)
      then have "re_split pat acc (c # (cs @ pat @ suf))
          = rev acc # re_split pat [] (drop (length pat - 1) (cs @ pat @ suf))"
        by (simp del: drop_append)
      then have "re_split pat acc (pre @ pat @ suf)
          = rev acc # re_split pat [] (rest @ pat @ suf)"
        by (simp only: eq dr)
      then show ?thesis
        using less.hyps [OF lr less.prems, of "[]"] by (simp add: re_split_not_Nil)
    next
      case False
      then have "\<not> prefix pat (c # (cs @ pat @ suf))" unfolding eq .
      then have "re_split pat acc (c # (cs @ pat @ suf))
          = re_split pat (c # acc) (cs @ pat @ suf)"
        by simp
      moreover have "length cs < length pre" by (simp add: Cons)
      ultimately show ?thesis
        using less.hyps [OF _ less.prems, of cs "c # acc"] by (simp only: eq)
    qed
  qed
qed


lemma hex_digit_ascii: "hex_digit_value c \<noteq> None \<Longrightarrow> (of_char c :: nat) < 128"
  by (auto simp: hex_digit_value_def Let_def split: if_splits)

lemma a2b_hex_length: "a2b_hex s = Inr bs \<Longrightarrow> length bs = length s div 2"
  by (induction s arbitrary: bs rule: a2b_hex.induct)
     (auto split: option.splits sum.splits)

lemma a2b_hex_fails:
  "even (length s) \<Longrightarrow> isl (a2b_hex s :: 'x error + byte list)
     \<longleftrightarrow> \<not> list_all (\<lambda>c. hex_digit_value c \<noteq> None) s"
  by (induction s rule: a2b_hex.induct)
     (auto split: option.splits sum.splits)

lemma unhexlify_length: "unhexlify s = Inr bs \<Longrightarrow> length bs = length s div 2"
  by (auto simp: unhexlify_def a2b_hex_length split: if_splits)

lemma unhexlify_fails: "isl (unhexlify s :: 'x error + byte list) \<longleftrightarrow> \<not> hexstring s"
proof (cases "\<exists>c \<in> set s. 128 \<le> (of_char c :: nat)")
  case True
  then obtain c where "c \<in> set s" "128 \<le> (of_char c :: nat)" by blast
  then have "hex_digit_value c = None" using hex_digit_ascii [of c] by force
  with \<open>c \<in> set s\<close> have "\<not> list_all (\<lambda>c. hex_digit_value c \<noteq> None) s"
    by (auto simp: list_all_iff)
  with True show ?thesis by (simp add: unhexlify_def hexstring_def)
next
  case False
  then show ?thesis
    by (cases "even (length s)") (simp_all add: unhexlify_def hexstring_def a2b_hex_fails)
qed

lemma signature_border_free: "hd ''Signature='' \<notin> set (tl ''Signature='')"
  by simp

lemma lower_Authorization: "lower ''Authorization'' = ''authorization''"
  by code_simp

lemma lower_authorization: "lower ''authorization'' = ''authorization''"
  by code_simp

lemma lower_errortype: "lower ''x-amzn-errortype'' = ''x-amzn-errortype''"
  by code_simp

lemma headers_lookup_Nil: "headers_lookup [] key = None"
  by (simp add: headers_lookup_def)

lemma headers_lookup_Authorization:
  "headers_lookup ((''Authorization'', v) # hs) ''Authorization'' = Some v"
  by (simp add: headers_lookup_def lower_Authorization)

lemma headers_lookup_authorization:
  "headers_lookup ((''authorization'', v) # hs) ''Authorization'' = Some v"
  by (simp add: headers_lookup_def lower_Authorization lower_authorization)

lemma headers_lookup_errortype:
  "headers_lookup ((''x-amzn-errortype'', v) # hs) ''x-amzn-errortype'' = Some v"
  by (simp add: headers_lookup_def lower_errortype)

lemma extract_signature_absent:
  "headers_lookup (headers signed_request) ''Authorization'' = None
     \<Longrightarrow> extract_signature signed_request = Inr []"
  by (simp add: extract_signature_def headers_get_def unhexlify_def)

lemma S_not_hex: "hex_digit_value CHR ''S'' = None"
  by (simp add: hex_digit_value_def)

lemma hexstring_no_marker:
  assumes "hexstring s"
  shows "\<not> sublist ''Signature='' s"
proof
  assume "sublist ''Signature='' s"
  then obtain pre suf where "s = pre @ ''Signature='' @ suf"
    by (auto simp: sublist_def)
  then have "CHR ''S'' \<in> set s" by simp
  with assms have "hex_digit_value CHR ''S'' \<noteq> None"
    by (auto simp: hexstring_def list_all_iff)
  then show False by (simp add: S_not_hex)
qed

lemma unhexlify_hexstring:
  assumes "hexstring s"
  shows "\<exists>bs. (unhexlify s :: 'x error + byte list) = Inr bs \<and> length bs = length s div 2"
proof -
  from assms have "\<not> isl (unhexlify s :: 'x error + byte list)"
    by (simp add: unhexlify_fails)
  then obtain bs where "(unhexlify s :: 'x error + byte list) = Inr bs"
    by (cases "unhexlify s :: 'x error + byte list") auto
  then show ?thesis by (auto dest: unhexlify_length)
qed

lemma sigv4_authorizationD:
  assumes "sigv4_authorization auth"
  obtains pre suf where "auth = pre @ ''Signature='' @ suf" "length suf = 64" "hexstring suf"
proof
  let ?n = "length auth - 74"
  from assms have len: "74 \<le> length auth"
    and mark: "take 10 (drop ?n auth) = ''Signature=''"
    and hex: "hexstring (drop (length auth - 64) auth)"
    by (simp_all add: sigv4_authorization_def)
  have eq: "10 + ?n = length auth - 64" using len by simp
  have "auth = take ?n auth @ drop ?n auth" by simp
  also have "drop ?n auth = take 10 (drop ?n auth) @ drop 10 (drop ?n auth)"
    by (rule append_take_drop_id [symmetric])
  also have "drop 10 (drop ?n auth) = drop (length auth - 64) auth"
    by (simp only: drop_drop eq)
  finally show "auth = take ?n auth @ ''Signature='' @ drop (length auth - 64) auth"
    by (simp only: mark)
  show "length (drop (length auth - 64) auth) = 64" using len by simp
  show "hexstring (drop (length auth - 64) auth)" by (rule hex)
qed

lemma extract_signature_no_marker:
  assumes "headers_lookup (headers signed_request) ''Authorization'' = Some auth"
      and "\<not> sublist ''Signature='' auth"
  shows "extract_signature signed_request = unhexlify auth"
  using re_split_no_match [OF assms(2), of "[]"] assms(1)
  by (simp add: extract_signature_def headers_get_def)

lemma extract_signature_marker:
  assumes "headers_lookup (headers signed_request) ''Authorization''
             = Some (pre @ ''Signature='' @ suf)"
      and "\<not> sublist ''Signature='' suf"
  shows "extract_signature signed_request = unhexlify suf"
proof -
  define auth where "auth = pre @ ''Signature='' @ suf"
  have "last (re_split ''Signature='' [] auth) = suf"
    unfolding auth_def by (rule re_split_last [OF _ signature_border_free assms(2)]) simp
  moreover obtain p ps where "re_split ''Signature='' [] auth = p # ps"
    using re_split_not_Nil [of "''Signature=''" "[]" auth] by (cases "re_split ''Signature='' [] auth") auto
  moreover have "headers_lookup (headers signed_request) ''Authorization'' = Some auth"
    using assms(1) by (simp only: auth_def)
  ultimately show ?thesis
    by (simp add: extract_signature_def headers_get_def Let_def del: last.simps)
qed

lemma bind_call_Inr: "bind_io (call ev (Inr a)) f tr = f a (tr @ [ev])"
  by (simp add: bind_io_def call_def)

lemma bind_call_Inl: "bind_io (call ev (Inl x)) f tr = (Inl (Raised x), tr @ [ev])"
  by (simp add: bind_io_def call_def)

lemma create_audio_stream_eval:
  "create_audio_stream self signed_request tr =
     (case extract_signature signed_request of
        Inl e \<Rightarrow> (Inl e, tr)
      | Inr seed \<Rightarrow>
          (Inr \<lparr>input_stream = body signed_request,
                event_signer = (service_name self, region self),
                initial_signature = seed,
                credential_resolver = get_credentials self\<rparr>, tr))"
  by (simp add: create_audio_stream_def bind_io_def lift_io_def return_io_def
        split: sum.splits)

lemma handshake_SomeD:
  assumes "handshake self kwargs = Some (signed_request, response, resolved_response)"
  obtains shape endpoint request creds where
    "new_request self kwargs = Inr shape"
    "endpoint_resolve self (region self) = Inr endpoint"
    "serialize_request self endpoint shape = Inr request"
    "get_credentials self = Inr creds"
    "sign self ''transcribe'' (region self) request creds = Inr signed_request"
    "make_request self (uri signed_request) (http_method signed_request)
       (headers signed_request) (body signed_request) = Inr response"
    "resolve_response self response = Inr resolved_response"
  using assms by (auto simp: handshake_def split: sum.splits)

lemma start_after_handshake:
  assumes "handshake self kwargs = Some (signed_request, response, resolved_response)"
  shows "start_stream_transcription self kwargs tr =
     (if status_code resolved_response \<ge> 400 then
        bind_io (call CloseBody (close_body self (body signed_request))) (\<lambda>_.
        bind_io (call ConsumeBody (consume_body self response)) (\<lambda>body_bytes.
        bind_io (call ParseException
                   (Inr (parse_exception self resolved_response body_bytes))) (\<lambda>exn.
        raise_io (Raised exn))))
      else if status_code resolved_response \<noteq> 200 then
        raise_io (RuntimeError (''Unexpected status code encountered: ''
                                  @ str_int (status_code resolved_response)))
      else
        bind_io (call ParseResponse
                   (parse_start_stream_transcription_response self
                      resolved_response response)) (\<lambda>parsed_response'.
        bind_io (create_audio_stream self signed_request) (\<lambda>audio_stream'.
        return_io \<lparr>audio_stream = audio_stream',
                   parsed_response = parsed_response'\<rparr>)))
       (tr @ handshake_trace)"
proof -
  from assms obtain shape endpoint request creds where
    "new_request self kwargs = Inr shape"
    "endpoint_resolve self (region self) = Inr endpoint"
    "serialize_request self endpoint shape = Inr request"
    "get_credentials self = Inr creds"
    "sign self ''transcribe'' (region self) request creds = Inr signed_request"
    "make_request self (uri signed_request) (http_method signed_request)
       (headers signed_request) (body signed_request) = Inr response"
    "resolve_response self response = Inr resolved_response"
    by (rule handshake_SomeD)
  then show ?thesis
    by (simp add: start_stream_transcription_def bind_call_Inr handshake_trace_def)
qed

lemma start_error_path:
  assumes "handshake self kwargs = Some (signed_request, response, resolved_response)"
      and "400 \<le> status_code resolved_response"
  shows "start_stream_transcription self kwargs tr =
     (case close_body self (body signed_request) of
        Inl x \<Rightarrow> (Inl (Raised x), tr @ handshake_trace @ [CloseBody])
      | Inr _ \<Rightarrow>
          (case consume_body self response of
             Inl x \<Rightarrow> (Inl (Raised x), tr @ handshake_trace @ [CloseBody, ConsumeBody])
           | Inr body_bytes \<Rightarrow>
               (Inl (Raised (parse_exception self resolved_response body_bytes)),
                tr @ handshake_trace @ [CloseBody, ConsumeBody, ParseException])))"
  using assms(2)
  by (simp add: start_after_handshake [OF assms(1)] bind_call_Inr bind_call_Inl
        raise_io_def split: sum.splits)

lemma start_unexpected_path:
  assumes "handshake self kwargs = Some (signed_request, response, resolved_response)"
      and "status_code resolved_response < 400" "status_code resolved_response \<noteq> 200"
  shows "start_stream_transcription self kwargs tr =
     (Inl (RuntimeError (''Unexpected status code encountered: ''
                           @ str_int (status_code resolved_response))),
      tr @ handshake_trace)"
  using assms(2,3)
  by (simp add: start_after_handshake [OF assms(1)] raise_io_def)

lemma start_success_path:
  assumes "handshake self kwargs = Some (signed_request, response, resolved_response)"
      and "status_code resolved_response = 200"
  shows "start_stream_transcription self kwargs tr =
     (case parse_start_stream_transcription_response self resolved_response response of
        Inl x \<Rightarrow> (Inl (Raised x), tr @ handshake_trace @ [ParseResponse])
      | Inr parsed \<Rightarrow>
          (case extract_signature signed_request of
             Inl e \<Rightarrow> (Inl e, tr @ handshake_trace @ [ParseResponse])
           | Inr seed \<Rightarrow>
               (Inr \<lparr>audio_stream =
                       \<lparr>input_stream = body signed_request,
                        event_signer = (service_name self, region self),
                        initial_signature = seed,
                        credential_resolver = get_credentials self\<rparr>,
                     parsed_response = parsed\<rparr>,
                tr @ handshake_trace @ [ParseResponse])))"
  using assms(2)
  by (simp add: start_after_handshake [OF assms(1)] bind_call_Inr bind_call_Inl
        bind_io_def [of "create_audio_stream self signed_request"]
        create_audio_stream_eval return_io_def split: sum.splits)

lemma medical_start_eq:
  assumes "same_request base kwargs new_medical_request medical_serializer medical_kwargs"
  shows "medical_start_stream_transcription
           (medical_client base new_medical_request medical_serializer) medical_kwargs tr
         = start_stream_transcription base kwargs tr"
proof (cases "new_request base kwargs")
  case (Inl x)
  with assms have "new_medical_request medical_kwargs = Inl x"
    by (auto simp: same_request_def split: sum.splits)
  with Inl show ?thesis
    by (simp add: medical_start_stream_transcription_def start_stream_transcription_def
          medical_client_def bind_call_Inl)
next
  case (Inr shape)
  with assms obtain medical_shape where m: "new_medical_request medical_kwargs = Inr medical_shape"
    by (auto simp: same_request_def split: sum.splits)
  show ?thesis
  proof (cases "endpoint_resolve base (region base)")
    case (Inl x)
    with Inr m show ?thesis
      by (simp add: medical_start_stream_transcription_def start_stream_transcription_def
            medical_client_def bind_call_Inl bind_call_Inr)
  next
    case ep: (Inr endpoint)
    with assms Inr m have "serialize_request base endpoint shape
        = medical_serializer endpoint medical_shape"
      by (simp add: same_request_def)
    with Inr m ep show ?thesis
      by (simp add: medical_start_stream_transcription_def start_stream_transcription_def
            medical_client_def bind_call_Inr create_audio_stream_def cong: if_cong)
  qed
qed

lemma str_int_201: "str_int 201 = ''201''"
  by code_simp

lemma unhexlify_deadbeef: "unhexlify ''deadbeef'' = Inr [222, 173, 190, 239]"
  by (simp add: unhexlify_def hex_digit_value_def)

lemma handshake_fake:
  "handshake (fake_client status hdrs body_bytes) kwargs =
     Some (\<lparr>uri = ''transcribestreaming.us-east-1'', http_method = ''POST'', headers = hdrs,
            body = 7\<rparr>, 7, \<lparr>status_code = status\<rparr>)"
  by (simp add: handshake_def fake_client_def)

lemma fake_client_sel:
  "region (fake_client status hdrs body_bytes) = ''us-east-1''"
  "service_name (fake_client status hdrs body_bytes) = ''transcribe''"
  "new_request (fake_client status hdrs body_bytes) kwargs = Inr kwargs"
  "endpoint_resolve (fake_client status hdrs body_bytes) r = Inr (''transcribestreaming.'' @ r)"
  "serialize_request (fake_client status hdrs body_bytes) endpoint shape = Inr endpoint"
  "get_credentials (fake_client status hdrs body_bytes) = Inr ()"
  "close_body (fake_client status hdrs body_bytes) b = Inr ()"
  "consume_body (fake_client status hdrs body_bytes) response = Inr body_bytes"
  "parse_exception (fake_client status hdrs body_bytes) resolved_response bytes
     = (status_code resolved_response, bytes)"
  "parse_start_stream_transcription_response (fake_client status hdrs body_bytes)
     resolved_response response = Inr ()"
  by (simp_all add: fake_client_def)

lemma start_reaches_endpoint:
  assumes "new_request self kwargs = Inr shape"
  shows "prefix (tr @ [NewRequest, ResolveEndpoint])
           (snd (start_stream_transcription self kwargs tr))"
  using assms
  by (auto simp: start_stream_transcription_def create_audio_stream_def bind_io_def
        call_def raise_io_def return_io_def lift_io_def
        split: sum.splits prod.splits)

lemma not_sublist_deadbeef: "\<not> sublist ''Signature='' ''deadbeef''"
  by code_simp

lemma not_sublist_xyz: "\<not> sublist ''Signature='' ''xyz''"
  by code_simp

lemma not_sublist_cafe: "\<not> sublist ''Signature='' ''cafe''"
  by code_simp

lemma unhexlify_cafe: "unhexlify ''cafe'' = Inr [202, 254]"
  by (simp add: unhexlify_def hex_digit_value_def)

lemma unhexlify_xyz: "unhexlify ''xyz'' = Inl (BinasciiError ''Odd-length string'')"
  by (simp add: unhexlify_def)

lemma not_hexstring_xyz: "\<not> hexstring ''xyz''"
  by (simp add: hexstring_def)

lemma str_int_301: "str_int 301 = ''301''"
  by code_simp

lemma extract_signature_fake_deadbeef:
  "extract_signature
     \<lparr>uri = u, http_method = m,
      headers = [(''Authorization'', ''AWS4-HMAC-SHA256 Signature=deadbeef'')],
      body = b\<rparr>
   = Inr [222, 173, 190, 239]"
  using extract_signature_marker
    [of "\<lparr>uri = u, http_method = m,
          headers = [(''Authorization'', ''AWS4-HMAC-SHA256 Signature=deadbeef'')],
          body = b\<rparr>" "''AWS4-HMAC-SHA256 ''" "''deadbeef''"]
  by (simp add: not_sublist_deadbeef unhexlify_deadbeef headers_lookup_Authorization)

lemma start_fake_deadbeef:
  "start_stream_transcription
     (fake_client 200 [(''Authorization'', ''AWS4-HMAC-SHA256 Signature=deadbeef'')] [])
     kwargs []
   = (Inr \<lparr>audio_stream =
              \<lparr>input_stream = 7,
               event_signer = (''transcribe'', ''us-east-1''),
               initial_signature = [222, 173, 190, 239],
               credential_resolver = Inr ()\<rparr>,
            parsed_response = ()\<rparr>,
      [NewRequest, ResolveEndpoint, Serialize, GetCredentials, Sign, MakeRequest,
       ResolveResponse, ParseResponse])"
  by (simp add: start_success_path [OF handshake_fake] handshake_trace_def
        fake_client_sel extract_signature_fake_deadbeef)

lemma start_extends_handshake:
  assumes "handshake self kwargs = Some (signed_request, response, resolved_response)"
  shows "prefix (tr @ handshake_trace) (snd (start_stream_transcription self kwargs tr))"
proof -
  consider "400 \<le> status_code resolved_response"
    | "status_code resolved_response < 400" "status_code resolved_response \<noteq> 200"
    | "status_code resolved_response = 200"
    by linarith
  then show ?thesis
  proof cases
    case 1
    show ?thesis
      by (simp add: start_error_path [OF assms 1] split: sum.splits)
  next
    case 2
    show ?thesis
      by (simp add: start_unexpected_path [OF assms 2])
  next
    case 3
    show ?thesis
      by (simp add: start_success_path [OF assms 3] split: sum.splits)
  qed
qed

lemma handshake_typing:
  "handshake (typing_client status response_hdrs body_bytes) kwargs =
     Some (\<lparr>uri = ''transcribestreaming.us-east-1'', http_method = ''POST'', headers = [],
            body = 7\<rparr>, 7, \<lparr>status_code = status, response_headers = response_hdrs\<rparr>)"
  by (simp add: handshake_def typing_client_def)

lemma typing_client_sel:
  "close_body (typing_client status response_hdrs body_bytes) b = Inr ()"
  "consume_body (typing_client status response_hdrs body_bytes) response = Inr body_bytes"
  "parse_exception (typing_client status response_hdrs body_bytes) = typed_exception"
  by (simp_all add: typing_client_def)

lemma error_code_missing: "error_code [] = ''Unknown''"
  by (simp add: error_code_def headers_lookup_Nil)

lemma error_code_bad_request:
  "error_code [(''x-amzn-errortype'', ''BadRequestException:'')] = ''BadRequestException''"
  by (simp add: error_code_def headers_lookup_errortype)

lemma sigv4_example: "sigv4_authorization example_authorization"
  by code_simp

section \<open>The claims\<close>

text \<open>
  C1, as stated, does not hold in its last part: the error that is raised is not
  decided by the bytes of the body. Line 170 raises what \<^verbatim>\<open>parse_exception\<close> makes of
  the resolved response and the bytes, and a response parser that reads the type of
  the error from the \<^verbatim>\<open>x-amzn-errortype\<close> header gives, for status 400 without that
  header and the body \<^verbatim>\<open>{"__type":"BadRequestException","Message":"bad language code"}\<close>,
  an \<^verbatim>\<open>UnknownServiceException\<close> with the code \<^verbatim>\<open>Unknown\<close>.
\<close>

theorem error_type_not_from_body:
  "start_stream_transcription (typing_client 400 [] bad_request_body) (fake_kwargs None None) []
     = (Inl (Raised (UnknownServiceException 400 ''Unknown'' bad_request_body)),
        [NewRequest, ResolveEndpoint, Serialize, GetCredentials, Sign, MakeRequest,
         ResolveResponse, CloseBody, ConsumeBody, ParseException])
   \<and> UnknownServiceException 400 ''Unknown'' bad_request_body
       \<noteq> BadRequestException bad_request_body"
  by (simp add: start_error_path [OF handshake_typing] handshake_trace_def typing_client_sel
        typed_exception_def error_code_missing)

text \<open>
  C1, amended. When the handshake resolves with a status of 400 or more, the call makes
  the seven calls of the handshake, then closes the outbound body, then (unless the
  close raises) drains the response body, and raises: the exception of the close or of
  the drain if one of them fails, otherwise the exception that \<^verbatim>\<open>parse_exception\<close>
  gives for the resolved response and the drained bytes. What is recorded before the
  drain ends with the close: the drain never comes first.
\<close>

theorem error_status_closes_before_drain:
  assumes "handshake self kwargs = Some (signed_request, response, resolved_response)"
      and "400 \<le> status_code resolved_response"
  shows "start_stream_transcription self kwargs tr =
           (case close_body self (body signed_request) of
              Inl x \<Rightarrow> (Inl (Raised x), tr @ handshake_trace @ [CloseBody])
            | Inr _ \<Rightarrow>
                (case consume_body self response of
                   Inl x \<Rightarrow>
                     (Inl (Raised x), tr @ handshake_trace @ [CloseBody, ConsumeBody])
                 | Inr body_bytes \<Rightarrow>
                     (Inl (Raised (parse_exception self resolved_response body_bytes)),
                      tr @ handshake_trace @ [CloseBody, ConsumeBody, ParseException])))
         \<and> takeWhile (\<lambda>ev. ev \<noteq> ConsumeBody) (snd (start_stream_transcription self kwargs []))
             = handshake_trace @ [CloseBody]"
  by (simp add: start_error_path [OF assms] handshake_trace_def split: sum.splits)

theorem error_status_closes_before_drain_witness:
  "handshake
       (typing_client 400 [(''x-amzn-errortype'', ''BadRequestException:'')] bad_request_body)
       (fake_kwargs None None)
     = Some (\<lparr>uri = ''transcribestreaming.us-east-1'', http_method = ''POST'', headers = [],
             body = 7\<rparr>, 7,
            \<lparr>status_code = 400,
             response_headers = [(''x-amzn-errortype'', ''BadRequestException:'')]\<rparr>)
   \<and> start_stream_transcription
         (typing_client 400 [(''x-amzn-errortype'', ''BadRequestException:'')] bad_request_body)
         (fake_kwargs None None) []
       = (Inl (Raised (BadRequestException bad_request_body)),
          [NewRequest, ResolveEndpoint, Serialize, GetCredentials, Sign, MakeRequest,
           ResolveResponse, CloseBody, ConsumeBody, ParseException])
   \<and> takeWhile (\<lambda>ev. ev \<noteq> ConsumeBody)
        (snd (start_stream_transcription
                (typing_client 400 [(''x-amzn-errortype'', ''BadRequestException:'')]
                   bad_request_body)
                (fake_kwargs None None) []))
       = [NewRequest, ResolveEndpoint, Serialize, GetCredentials, Sign, MakeRequest,
          ResolveResponse, CloseBody]"
  using error_status_closes_before_drain
    [of "typing_client 400 [(''x-amzn-errortype'', ''BadRequestException:'')]
           bad_request_body"
        "fake_kwargs None None"
        "\<lparr>uri = ''transcribestreaming.us-east-1'', http_method = ''POST'', headers = [],
          body = 7\<rparr>" 7
        "\<lparr>status_code = 400,
          response_headers = [(''x-amzn-errortype'', ''BadRequestException:'')]\<rparr>" "[]"]
  by (simp add: handshake_typing handshake_trace_def typing_client_sel typed_exception_def
        error_code_bad_request)

text \<open>
  C2. When the handshake resolves with status 200, the response parses, and the
  Authorization header of the signed request is some text, then \<^verbatim>\<open>Signature=\<close>, then a
  rest in which \<^verbatim>\<open>Signature=\<close> does not occur again, the call returns the hex-decoding of
  that rest as the \<^verbatim>\<open>initial_signature\<close> of the audio stream (and raises when the rest
  does not decode). For the rest \<^verbatim>\<open>deadbeef\<close> the seed is the four bytes DE AD BE EF.
\<close>

theorem seed_is_hex_after_last_marker:
  assumes "handshake self kwargs = Some (signed_request, response, resolved_response)"
      and "status_code resolved_response = 200"
      and "parse_start_stream_transcription_response self resolved_response response
             = Inr parsed"
      and "headers_lookup (headers signed_request) ''Authorization''
             = Some (pre @ ''Signature='' @ suf)"
      and "\<not> sublist ''Signature='' suf"
  shows "fst (start_stream_transcription self kwargs tr) =
           (case unhexlify suf of
              Inl e \<Rightarrow> Inl e
            | Inr seed \<Rightarrow>
                Inr \<lparr>audio_stream =
                       \<lparr>input_stream = body signed_request,
                        event_signer = (service_name self, region self),
                        initial_signature = seed,
                        credential_resolver = get_credentials self\<rparr>,
                     parsed_response = parsed\<rparr>)
         \<and> (suf = ''deadbeef'' \<longrightarrow>
              (\<exists>r. fst (start_stream_transcription self kwargs tr) = Inr r
                 \<and> initial_signature (audio_stream r) = [0xDE, 0xAD, 0xBE, 0xEF]))"
proof -
  have *: "fst (start_stream_transcription self kwargs tr) =
           (case unhexlify suf of
              Inl e \<Rightarrow> Inl e
            | Inr seed \<Rightarrow>
                Inr \<lparr>audio_stream =
                       \<lparr>input_stream = body signed_request,
                        event_signer = (service_name self, region self),
                        initial_signature = seed,
                        credential_resolver = get_credentials self\<rparr>,
                     parsed_response = parsed\<rparr>)"
    using assms(3)
    by (simp add: start_success_path [OF assms(1,2)] extract_signature_marker [OF assms(4,5)]
          split: sum.splits)
  show ?thesis
    by (simp add: * unhexlify_deadbeef)
qed

theorem seed_is_hex_after_last_marker_witness:
  "handshake (fake_client 200 [(''Authorization'', ''AWS4-HMAC-SHA256 Signature=deadbeef'')] [])
       (fake_kwargs None None)
     = Some (\<lparr>uri = ''transcribestreaming.us-east-1'', http_method = ''POST'',
             headers = [(''Authorization'', ''AWS4-HMAC-SHA256 Signature=deadbeef'')],
             body = 7\<rparr>, 7, \<lparr>status_code = 200\<rparr>)
   \<and> \<not> sublist ''Signature='' ''deadbeef''
   \<and> fst (start_stream_transcription
            (fake_client 200 [(''Authorization'', ''AWS4-HMAC-SHA256 Signature=deadbeef'')] [])
            (fake_kwargs None None) [])
       = Inr \<lparr>audio_stream =
                \<lparr>input_stream = 7,
                 event_signer = (''transcribe'', ''us-east-1''),
                 initial_signature = [0xDE, 0xAD, 0xBE, 0xEF],
                 credential_resolver = Inr ()\<rparr>,
              parsed_response = ()\<rparr>"
  using seed_is_hex_after_last_marker
    [of "fake_client 200 [(''Authorization'', ''AWS4-HMAC-SHA256 Signature=deadbeef'')] []"
        "fake_kwargs None None"
        "\<lparr>uri = ''transcribestreaming.us-east-1'', http_method = ''POST'',
          headers = [(''Authorization'', ''AWS4-HMAC-SHA256 Signature=deadbeef'')],
          body = 7\<rparr>" 7 "\<lparr>status_code = 200\<rparr>" "()" "''AWS4-HMAC-SHA256 ''"
        "''deadbeef''" "[]"]
  by (simp add: handshake_fake not_sublist_deadbeef unhexlify_deadbeef fake_client_sel
        headers_lookup_Authorization)

text \<open>
  C3, as stated, does not hold. client.py does not look at the two flags: it hands them
  to the request shape class (line 133) and the next thing it does is to resolve the
  endpoint (line 145). Counterexample: with a request shape class that accepts its
  arguments, the call with both flags set to true resolves the endpoint, fetches the
  credentials, signs, sends the request and returns the stream.
\<close>

theorem both_flags_reach_network:
  "show_speaker_label (fake_kwargs (Some True) (Some True)) = Some True
   \<and> enable_channel_identification (fake_kwargs (Some True) (Some True)) = Some True
   \<and> start_stream_transcription
         (fake_client 200 [(''Authorization'', ''AWS4-HMAC-SHA256 Signature=deadbeef'')] [])
         (fake_kwargs (Some True) (Some True)) []
       = (Inr \<lparr>audio_stream =
                  \<lparr>input_stream = 7,
                   event_signer = (''transcribe'', ''us-east-1''),
                   initial_signature = [0xDE, 0xAD, 0xBE, 0xEF],
                   credential_resolver = Inr ()\<rparr>,
                parsed_response = ()\<rparr>,
          [NewRequest, ResolveEndpoint, Serialize, GetCredentials, Sign, MakeRequest,
           ResolveResponse, ParseResponse])"
  by (simp add: start_fake_deadbeef fake_kwargs_def)

text \<open>
  C3, amended. Whatever the keyword arguments, also with both flags set to true,
  client.py validates nothing itself. The call fails before any call to the network
  only when the request shape class raises, and then with the exception of that class;
  as soon as the request shape is built, the call goes on to resolve the endpoint, and
  when no collaborator raises up to the resolution of the response, the request is
  signed and sent.
\<close>

theorem only_request_shape_fails_before_network:
  "(\<forall>x. new_request self kwargs = Inl x \<longrightarrow>
        start_stream_transcription self kwargs tr = (Inl (Raised x), tr @ [NewRequest]))
   \<and> (\<forall>shape. new_request self kwargs = Inr shape \<longrightarrow>
        prefix (tr @ [NewRequest, ResolveEndpoint])
          (snd (start_stream_transcription self kwargs tr)))
   \<and> (\<forall>signed_request response resolved_response.
        handshake self kwargs = Some (signed_request, response, resolved_response) \<longrightarrow>
        prefix (tr @ [NewRequest, ResolveEndpoint, Serialize, GetCredentials, Sign,
                      MakeRequest, ResolveResponse])
          (snd (start_stream_transcription self kwargs tr)))"
proof (intro conjI allI impI)
  fix x assume "new_request self kwargs = Inl x"
  then show "start_stream_transcription self kwargs tr = (Inl (Raised x), tr @ [NewRequest])"
    by (simp add: start_stream_transcription_def bind_call_Inl)
next
  fix shape assume "new_request self kwargs = Inr shape"
  then show "prefix (tr @ [NewRequest, ResolveEndpoint])
               (snd (start_stream_transcription self kwargs tr))"
    by (rule start_reaches_endpoint)
next
  fix signed_request response resolved_response
  assume "handshake self kwargs = Some (signed_request, response, resolved_response)"
  then show "prefix (tr @ [NewRequest, ResolveEndpoint, Serialize, GetCredentials, Sign,
                           MakeRequest, ResolveResponse])
               (snd (start_stream_transcription self kwargs tr))"
    using start_extends_handshake [of self kwargs signed_request response resolved_response tr]
    by (simp add: handshake_trace_def)
qed

theorem only_request_shape_fails_before_network_witness:
  "new_request (fake_client 200 [] []) (fake_kwargs (Some True) (Some True))
     = Inr (fake_kwargs (Some True) (Some True))
   \<and> handshake (fake_client 200 [] []) (fake_kwargs (Some True) (Some True))
     = Some (\<lparr>uri = ''transcribestreaming.us-east-1'', http_method = ''POST'', headers = [],
             body = 7\<rparr>, 7, \<lparr>status_code = 200\<rparr>)
   \<and> prefix [NewRequest, ResolveEndpoint]
        (snd (start_stream_transcription (fake_client 200 [] [])
                (fake_kwargs (Some True) (Some True)) []))
   \<and> prefix [NewRequest, ResolveEndpoint, Serialize, GetCredentials, Sign, MakeRequest,
              ResolveResponse]
        (snd (start_stream_transcription (fake_client 200 [] [])
                (fake_kwargs (Some True) (Some True)) []))"
  using only_request_shape_fails_before_network
    [of "fake_client 200 [] []" "fake_kwargs (Some True) (Some True)" "[]"]
  by (simp add: fake_client_sel handshake_fake)

text \<open>
  C4, as stated, does not hold: the exception is a \<^verbatim>\<open>RuntimeError\<close> and its message is
  \<^verbatim>\<open>Unexpected status code encountered: \<close> followed by the status, not
  \<^verbatim>\<open>unexpected status\<close>. Counterexample: status 201.
\<close>

theorem status_201_runtime_error:
  "fst (start_stream_transcription (fake_client 201 [] []) (fake_kwargs None None) [])
     = Inl (RuntimeError ''Unexpected status code encountered: 201'')
   \<and> ''Unexpected status code encountered: 201'' \<noteq> ''unexpected status''"
  by (simp add: start_unexpected_path [OF handshake_fake] str_int_201)

text \<open>
  C4, amended. When the handshake resolves with a status below 400 other than 200, the
  call raises \<^verbatim>\<open>RuntimeError\<close> with the message
  \<^verbatim>\<open>Unexpected status code encountered: \<close> followed by the status in decimal, and it
  makes no further call: the request was sent once and is not sent again.
\<close>

theorem unexpected_status_runtime_error:
  assumes "handshake self kwargs = Some (signed_request, response, resolved_response)"
      and "status_code resolved_response < 400"
      and "status_code resolved_response \<noteq> 200"
  shows "start_stream_transcription self kwargs tr =
           (Inl (RuntimeError (''Unexpected status code encountered: ''
                                 @ str_int (status_code resolved_response))),
            tr @ handshake_trace)
         \<and> count_list (snd (start_stream_transcription self kwargs [])) MakeRequest = 1"
  by (simp add: start_unexpected_path [OF assms] handshake_trace_def)

theorem unexpected_status_runtime_error_witness:
  "handshake (fake_client 301 [] []) (fake_kwargs None None)
     = Some (\<lparr>uri = ''transcribestreaming.us-east-1'', http_method = ''POST'', headers = [],
             body = 7\<rparr>, 7, \<lparr>status_code = 301\<rparr>)
   \<and> start_stream_transcription (fake_client 301 [] []) (fake_kwargs None None) []
       = (Inl (RuntimeError ''Unexpected status code encountered: 301''),
          [NewRequest, ResolveEndpoint, Serialize, GetCredentials, Sign, MakeRequest,
           ResolveResponse])"
  using unexpected_status_runtime_error
    [of "fake_client 301 [] []" "fake_kwargs None None"
        "\<lparr>uri = ''transcribestreaming.us-east-1'', http_method = ''POST'', headers = [],
          body = 7\<rparr>" 7 "\<lparr>status_code = 301\<rparr>" "[]"]
  by (simp add: handshake_fake handshake_trace_def str_int_301)

text \<open>
  C5. When the handshake resolves with any status other than 200, the call raises: its
  result is an exception, never a stream, and the success branch (the parsing of the
  response, after which the streams are built) is not entered.
\<close>

theorem failure_returns_no_stream:
  assumes "handshake self kwargs = Some (signed_request, response, resolved_response)"
      and "status_code resolved_response \<noteq> 200"
  shows "isl (fst (start_stream_transcription self kwargs tr))
         \<and> ParseResponse \<notin> set (snd (start_stream_transcription self kwargs []))"
proof (cases "400 \<le> status_code resolved_response")
  case True
  show ?thesis
    by (simp add: start_error_path [OF assms(1) True] handshake_trace_def split: sum.splits)
next
  case False
  with assms(2) show ?thesis
    by (simp add: start_unexpected_path [OF assms(1)] handshake_trace_def)
qed

theorem failure_returns_no_stream_witness:
  "handshake (fake_client 403 [] []) (fake_kwargs None None)
     = Some (\<lparr>uri = ''transcribestreaming.us-east-1'', http_method = ''POST'', headers = [],
             body = 7\<rparr>, 7, \<lparr>status_code = 403\<rparr>)
   \<and> isl (fst (start_stream_transcription (fake_client 403 [] []) (fake_kwargs None None) []))
   \<and> ParseResponse \<notin> set (snd (start_stream_transcription (fake_client 403 [] [])
                                    (fake_kwargs None None) []))"
  using failure_returns_no_stream
    [of "fake_client 403 [] []" "fake_kwargs None None"
        "\<lparr>uri = ''transcribestreaming.us-east-1'', http_method = ''POST'', headers = [],
          body = 7\<rparr>" 7 "\<lparr>status_code = 403\<rparr>" "[]"]
  by (simp add: handshake_fake)

text \<open>
  C6. When the handshake resolves with status 200, the call never closes the outbound
  body, and it returns as soon as the response parses and the seed decodes: the stream
  it returns holds, as the \<^verbatim>\<open>input_stream\<close> of its audio stream, the body of the signed
  request.
\<close>

theorem success_keeps_body_open:
  assumes "handshake self kwargs = Some (signed_request, response, resolved_response)"
      and "status_code resolved_response = 200"
  shows "CloseBody \<notin> set (snd (start_stream_transcription self kwargs []))
         \<and> start_stream_transcription self kwargs tr =
             (case parse_start_stream_transcription_response self resolved_response
                     response of
                Inl x \<Rightarrow> (Inl (Raised x), tr @ handshake_trace @ [ParseResponse])
              | Inr parsed \<Rightarrow>
                  (case extract_signature signed_request of
                     Inl e \<Rightarrow> (Inl e, tr @ handshake_trace @ [ParseResponse])
                   | Inr seed \<Rightarrow>
                       (Inr \<lparr>audio_stream =
                               \<lparr>input_stream = body signed_request,
                                event_signer = (service_name self, region self),
                                initial_signature = seed,
                                credential_resolver = get_credentials self\<rparr>,
                             parsed_response = parsed\<rparr>,
                        tr @ handshake_trace @ [ParseResponse])))"
proof
  show "CloseBody \<notin> set (snd (start_stream_transcription self kwargs []))"
    by (simp add: start_success_path [OF assms] handshake_trace_def split: sum.splits)
  show "start_stream_transcription self kwargs tr =
          (case parse_start_stream_transcription_response self resolved_response
                  response of
             Inl x \<Rightarrow> (Inl (Raised x), tr @ handshake_trace @ [ParseResponse])
           | Inr parsed \<Rightarrow>
               (case extract_signature signed_request of
                  Inl e \<Rightarrow> (Inl e, tr @ handshake_trace @ [ParseResponse])
                | Inr seed \<Rightarrow>
                    (Inr \<lparr>audio_stream =
                            \<lparr>input_stream = body signed_request,
                             event_signer = (service_name self, region self),
                             initial_signature = seed,
                             credential_resolver = get_credentials self\<rparr>,
                          parsed_response = parsed\<rparr>,
                     tr @ handshake_trace @ [ParseResponse])))"
    by (rule start_success_path [OF assms])
qed

theorem success_keeps_body_open_witness:
  "handshake (fake_client 200 [(''Authorization'', ''AWS4-HMAC-SHA256 Signature=deadbeef'')] [])
       (fake_kwargs None None)
     = Some (\<lparr>uri = ''transcribestreaming.us-east-1'', http_method = ''POST'',
             headers = [(''Authorization'', ''AWS4-HMAC-SHA256 Signature=deadbeef'')],
             body = 7\<rparr>, 7, \<lparr>status_code = 200\<rparr>)
   \<and> CloseBody \<notin> set (snd (start_stream_transcription
         (fake_client 200 [(''Authorization'', ''AWS4-HMAC-SHA256 Signature=deadbeef'')] [])
         (fake_kwargs None None) []))
   \<and> start_stream_transcription
         (fake_client 200 [(''Authorization'', ''AWS4-HMAC-SHA256 Signature=deadbeef'')] [])
         (fake_kwargs None None) []
       = (Inr \<lparr>audio_stream =
                  \<lparr>input_stream = 7,
                   event_signer = (''transcribe'', ''us-east-1''),
                   initial_signature = [0xDE, 0xAD, 0xBE, 0xEF],
                   credential_resolver = Inr ()\<rparr>,
                parsed_response = ()\<rparr>,
          [NewRequest, ResolveEndpoint, Serialize, GetCredentials, Sign, MakeRequest,
           ResolveResponse, ParseResponse])"
  using success_keeps_body_open
    [of "fake_client 200 [(''Authorization'', ''AWS4-HMAC-SHA256 Signature=deadbeef'')] []"
        "fake_kwargs None None"
        "\<lparr>uri = ''transcribestreaming.us-east-1'', http_method = ''POST'',
          headers = [(''Authorization'', ''AWS4-HMAC-SHA256 Signature=deadbeef'')],
          body = 7\<rparr>" 7 "\<lparr>status_code = 200\<rparr>" "[]"]
  by (simp add: handshake_fake fake_client_sel extract_signature_fake_deadbeef
        handshake_trace_def)

text \<open>
  C7. When the Authorization header of the signed request is one of Signature Version
  4, ending with \<^verbatim>\<open>Signature=\<close> and 64 hexadecimal digits, the seed is extracted and
  has 32 bytes, whatever the header holds before the signature and whatever the digits
  are.
\<close>

theorem seed_has_fixed_length:
  assumes "headers_lookup (headers signed_request) ''Authorization'' = Some auth"
      and "sigv4_authorization auth"
  shows "\<exists>seed. (extract_signature signed_request :: 'x error + byte list) = Inr seed
           \<and> length seed = 32"
proof -
  from assms(2) obtain pre suf where
    auth: "auth = pre @ ''Signature='' @ suf" and len: "length suf = 64" and hex: "hexstring suf"
    by (rule sigv4_authorizationD)
  have "(extract_signature signed_request :: 'x error + byte list) = unhexlify suf"
    using assms(1) hexstring_no_marker [OF hex] unfolding auth
    by (rule extract_signature_marker)
  with unhexlify_hexstring [OF hex, where 'x = 'x] len show ?thesis
    by auto
qed

theorem seed_has_fixed_length_witness:
  "headers_lookup
     (headers \<lparr>uri = ''transcribestreaming.us-east-1'', http_method = ''POST'',
               headers = [(''authorization'', example_authorization)],
               body = ()\<rparr>) ''Authorization''
     = Some example_authorization
   \<and> sigv4_authorization example_authorization
   \<and> (\<exists>seed. (extract_signature
          \<lparr>uri = ''transcribestreaming.us-east-1'', http_method = ''POST'',
           headers = [(''authorization'', example_authorization)],
           body = ()\<rparr> :: unit error + byte list) = Inr seed
        \<and> length seed = 32)"
  using seed_has_fixed_length
    [of "\<lparr>uri = ''transcribestreaming.us-east-1'', http_method = ''POST'',
          headers = [(''authorization'', example_authorization)],
          body = ()\<rparr>"
        example_authorization, where 'x = unit]
  by (simp add: headers_lookup_authorization sigv4_example)

text \<open>
  C8. When the lookup of the Authorization header in the signed request finds nothing,
  the seed is the empty byte string. When it finds a value in which \<^verbatim>\<open>Signature=\<close>
  does not occur, the seed is the hex-decoding of the whole value. The lookup matches
  the name without regard to case.
\<close>

theorem seed_without_marker:
  "(headers_lookup (headers signed_request) ''Authorization'' = None
      \<longrightarrow> extract_signature signed_request = Inr [])
   \<and> (\<forall>auth. headers_lookup (headers signed_request) ''Authorization'' = Some auth
               \<and> \<not> sublist ''Signature='' auth
      \<longrightarrow> extract_signature signed_request = unhexlify auth)"
  by (simp add: extract_signature_absent extract_signature_no_marker)

theorem seed_without_marker_witness:
  "headers_lookup (headers \<lparr>uri = ''transcribestreaming.us-east-1'', http_method = ''POST'',
                            headers = [], body = ()\<rparr>) ''Authorization'' = None
   \<and> extract_signature
        \<lparr>uri = ''transcribestreaming.us-east-1'', http_method = ''POST'',
         headers = [], body = ()\<rparr> = (Inr [] :: unit error + byte list)
   \<and> headers_lookup (headers \<lparr>uri = ''transcribestreaming.us-east-1'',
                              http_method = ''POST'',
                              headers = [(''authorization'', ''cafe'')], body = ()\<rparr>)
        ''Authorization'' = Some ''cafe''
   \<and> \<not> sublist ''Signature='' ''cafe''
   \<and> extract_signature
        \<lparr>uri = ''transcribestreaming.us-east-1'', http_method = ''POST'',
         headers = [(''authorization'', ''cafe'')], body = ()\<rparr>
       = (Inr [0xCA, 0xFE] :: unit error + byte list)"
  using
    seed_without_marker
      [of "\<lparr>uri = ''transcribestreaming.us-east-1'', http_method = ''POST'',
            headers = [], body = ()\<rparr>"]
    seed_without_marker
      [of "\<lparr>uri = ''transcribestreaming.us-east-1'', http_method = ''POST'',
            headers = [(''authorization'', ''cafe'')], body = ()\<rparr>"]
  by (simp add: not_sublist_cafe unhexlify_cafe headers_lookup_Nil
        headers_lookup_authorization)

text \<open>
  C9. When the handshake resolves with status 200, the response parses, and the rest
  of the Authorization header after its last \<^verbatim>\<open>Signature=\<close> is not an even number of
  hexadecimal digits, then \<^verbatim>\<open>unhexlify\<close> raises and the call raises the same
  exception, after the response was parsed.
\<close>

theorem bad_signature_fails_after_200:
  fixes self :: "(params, 'sh, 'ep, 'rq, 'cr, 'b, 'rs, 'm, 'p, 'x) client"
  assumes "handshake self kwargs = Some (signed_request, response, resolved_response)"
      and "status_code resolved_response = 200"
      and "parse_start_stream_transcription_response self resolved_response response
             = Inr parsed"
      and "headers_lookup (headers signed_request) ''Authorization''
             = Some (pre @ ''Signature='' @ suf)"
      and "\<not> sublist ''Signature='' suf"
      and "\<not> hexstring suf"
  shows "\<exists>e. unhexlify suf = Inl e
           \<and> start_stream_transcription self kwargs tr
               = (Inl e, tr @ handshake_trace @ [ParseResponse])"
proof -
  from assms(6) have "isl (unhexlify suf :: 'x error + byte list)"
    by (simp add: unhexlify_fails)
  then obtain e :: "'x error" where e: "unhexlify suf = Inl e"
    by (cases "unhexlify suf :: 'x error + byte list") auto
  with assms(3) show ?thesis
    by (simp add: start_success_path [OF assms(1,2)] extract_signature_marker [OF assms(4,5)])
qed

theorem bad_signature_fails_after_200_witness:
  "handshake (fake_client 200 [(''Authorization'', ''Signature=xyz'')] [])
       (fake_kwargs None None)
     = Some (\<lparr>uri = ''transcribestreaming.us-east-1'', http_method = ''POST'',
             headers = [(''Authorization'', ''Signature=xyz'')],
             body = 7\<rparr>, 7, \<lparr>status_code = 200\<rparr>)
   \<and> \<not> sublist ''Signature='' ''xyz''
   \<and> \<not> hexstring ''xyz''
   \<and> start_stream_transcription (fake_client 200 [(''Authorization'', ''Signature=xyz'')] [])
         (fake_kwargs None None) []
       = (Inl (BinasciiError ''Odd-length string''),
          [NewRequest, ResolveEndpoint, Serialize, GetCredentials, Sign, MakeRequest,
           ResolveResponse, ParseResponse])"
  using bad_signature_fails_after_200
    [of "fake_client 200 [(''Authorization'', ''Signature=xyz'')] []"
        "fake_kwargs None None"
        "\<lparr>uri = ''transcribestreaming.us-east-1'', http_method = ''POST'',
          headers = [(''Authorization'', ''Signature=xyz'')],
          body = 7\<rparr>" 7 "\<lparr>status_code = 200\<rparr>" "()" "[]" "''xyz''" "[]"]
  by (simp add: handshake_fake not_sublist_xyz not_hexstring_xyz unhexlify_xyz
        fake_client_sel handshake_trace_def headers_lookup_Authorization)

text \<open>
  C10. When the two classes are given equal serialized requests, the call on the
  medical client has the outcome of the call on the base client: the same result and
  the same calls in the same order.
\<close>

theorem medical_same_outcome:
  assumes "same_request base kwargs new_medical_request medical_serializer medical_kwargs"
  shows "medical_start_stream_transcription
           (medical_client base new_medical_request medical_serializer) medical_kwargs tr
         = start_stream_transcription base kwargs tr"
  using assms by (rule medical_start_eq)

theorem medical_same_outcome_witness:
  "same_request
     (fake_client 200 [(''Authorization'', ''AWS4-HMAC-SHA256 Signature=deadbeef'')] [])
     (fake_kwargs None None) Inr (\<lambda>endpoint shape. Inr endpoint) fake_medical_kwargs
   \<and> medical_start_stream_transcription
       (medical_client
          (fake_client 200 [(''Authorization'', ''AWS4-HMAC-SHA256 Signature=deadbeef'')] [])
          Inr (\<lambda>endpoint shape. Inr endpoint))
       fake_medical_kwargs []
     = (Inr \<lparr>audio_stream =
                \<lparr>input_stream = 7,
                 event_signer = (''transcribe'', ''us-east-1''),
                 initial_signature = [0xDE, 0xAD, 0xBE, 0xEF],
                 credential_resolver = Inr ()\<rparr>,
              parsed_response = ()\<rparr>,
        [NewRequest, ResolveEndpoint, Serialize, GetCredentials, Sign, MakeRequest,
         ResolveResponse, ParseResponse])"
  using medical_same_outcome
    [of "fake_client 200 [(''Authorization'', ''AWS4-HMAC-SHA256 Signature=deadbeef'')] []"
        "fake_kwargs None None" "Inr :: medical_params \<Rightarrow> (int \<times> byte list) + medical_params"
        "\<lambda>endpoint shape. Inr endpoint" fake_medical_kwargs "[]"]
  by (simp add: same_request_def fake_client_sel start_fake_deadbeef)

end
